theory Spec2Isabelle
  imports Complex_Main "HOL-Library.Word" "HOL-Library.Monad_Syntax"
begin

section \<open>The API management service (main.py)\<close>

text \<open>
  The service is a set of request handlers. Each handler is embedded as a function from its
  arguments and the state of the world to its result and the new state of the world. What a
  handler reads from outside (random UUIDs, the wall clock, the database server) is a field
  of the world; a raised \<^verbatim>\<open>HTTPException\<close> is the \<open>Inl\<close> branch of the result. The routes
  under which the decorators register the handlers, and the framework's router over them,
  follow the handlers: they decide which requests reach a handler at all.
\<close>

subsection \<open>Python values\<close>

text \<open>
  Pydantic models are records. Field names are shared between the models, as in the
  source, so they are written qualified where the record is not the last one declared.
  A handler's parameter \<^verbatim>\<open>api_id\<close> is written \<open>api_id'\<close>, the plain name being the field.
\<close>

record ApiRegistrationRequest =
  name :: string
  description :: string
  base_url :: string
  version :: string
  owner_id :: string
  documentation_url :: "string option"
  tags :: "string list"

record ApiResponse =
  api_id :: string
  name :: string
  description :: string
  base_url :: string
  version :: string
  owner_id :: string
  documentation_url :: "string option"
  tags :: "string list"
  created_at :: string
  updated_at :: string

record ContactSubmission =
  email :: string
  name :: string
  subject :: string
  message :: string
  company :: "string option"

record NewsletterSubscription =
  email :: string

record TrialWaitlistEntry =
  email :: string
  full_name :: string
  company :: "string option"
  selected_plan :: "string option"

record HealthResponse =
  status :: string
  version :: string
  uptime :: real
  service :: string
  database :: string

record ServiceStatusResponse =
  service :: string
  timestamp :: string
  database :: string
  status :: string
  message :: string

text \<open>
  The values a handler puts into a \<^verbatim>\<open>Dict[str, Any]\<close>, and the values of a decoded JSON
  body. A dict literal is the list of its items in the order written. Floats are reals:
  the rounding of binary floating point is not modelled, and no property below reads a
  fractional part.
\<close>

datatype pyval =
    PyNone
  | PyBool bool
  | PyInt int
  | PyFloat real
  | PyStr string
  | PyList "pyval list"
  | PyDict "(string \<times> pyval) list"
  | PyModel ApiResponse

text \<open>\<^verbatim>\<open>d[k]\<close> on a dict; \<open>None\<close> where Python raises \<^verbatim>\<open>KeyError\<close> or \<^verbatim>\<open>TypeError\<close>.\<close>

fun getitem :: "pyval \<Rightarrow> string \<Rightarrow> pyval option" where
  "getitem (PyDict kvs) k = map_of kvs k"
| "getitem _ k = None"

text \<open>\<^verbatim>\<open>int(x)\<close> on a float truncates towards zero.\<close>

definition int_of_float :: "real \<Rightarrow> int" where
  "int_of_float x = (if 0 \<le> x then \<lfloor>x\<rfloor> else \<lceil>x\<rceil>)"

definition digits :: string where
  "digits = ''0123456789abcdef''"

text \<open>\<^verbatim>\<open>str(i)\<close> on an int, which is what an f-string does with \<^verbatim>\<open>{i}\<close>.\<close>

fun str_nat :: "nat \<Rightarrow> string" where
  "str_nat n = (if n < 10 then [digits ! n] else str_nat (n div 10) @ [digits ! (n mod 10)])"

declare str_nat.simps [simp del]

definition str_int :: "int \<Rightarrow> string" where
  "str_int i = (if i < 0 then ''-'' @ str_nat (nat (- i)) else str_nat (nat i))"

text \<open>\<^verbatim>\<open>'%032x' % n\<close> for \<open>n < 16 ^ 32\<close>: the 32 hexadecimal digits of \<open>n\<close>, zero padded.\<close>

fun hex_pad :: "nat \<Rightarrow> nat \<Rightarrow> string" where
  "hex_pad 0 n = []"
| "hex_pad (Suc k) n = hex_pad k (n div 16) @ [digits ! (n mod 16)]"

text \<open>
  A UUID is its 128-bit integer. \<^verbatim>\<open>str(u)\<close> is the standard library's
  \<^verbatim>\<open>'%s-%s-%s-%s-%s' % (hex[:8], hex[8:12], hex[12:16], hex[16:20], hex[20:])\<close>.
\<close>

type_synonym uuid = "128 word"

definition str_uuid :: "uuid \<Rightarrow> string" where
  "str_uuid u =
     (let hex = hex_pad 32 (unat u)
      in take 8 hex @ ''-'' @ take 4 (drop 8 hex) @ ''-'' @ take 4 (drop 12 hex) @ ''-'' @
         take 4 (drop 16 hex) @ ''-'' @ drop 20 hex)"

subsection \<open>The world outside the handlers\<close>

text \<open>
  An exception that is an instance of \<^verbatim>\<open>Exception\<close>, with its \<^verbatim>\<open>str(e)\<close>. This is what
  the database driver raises and what \<^verbatim>\<open>except Exception\<close> catches.
\<close>

datatype exn = Exception (str_exn: string)

text \<open>
  An open database connection: for each call the handlers make on it, \<open>None\<close> when the call
  returns and \<open>Some e\<close> when it raises \<open>e\<close>.
\<close>

record connection =
  conn_cursor :: "exn option"
  cursor_execute :: "exn option"
  cursor_close :: "exn option"
  conn_close :: "exn option"

text \<open>
  \<open>uuid_source\<close> and \<open>clock\<close> are the successive results of \<^verbatim>\<open>uuid.uuid4()\<close> and of
  reading the wall clock, with the number of results already consumed. \<open>localtime_fmt\<close> is
  the rendering of a clock reading by \<^verbatim>\<open>"%Y-%m-%d %H:%M:%S"\<close> in the local time zone.
  \<open>db_server\<close> is what \<^verbatim>\<open>psycopg2.connect\<close> does with the configured host, port, database
  name, user and password. \<open>start_time\<close> is the module global set at import.
\<close>

record world =
  uuid_source :: "nat \<Rightarrow> uuid"
  uuid_count :: nat
  clock :: "nat \<Rightarrow> real"
  clock_count :: nat
  localtime_fmt :: "real \<Rightarrow> string"
  db_server :: "exn + connection"
  start_time :: real

definition uuid4 :: "world \<Rightarrow> uuid \<times> world" where
  "uuid4 w = (uuid_source w (uuid_count w), w\<lparr>uuid_count := Suc (uuid_count w)\<rparr>)"

definition time_time :: "world \<Rightarrow> real \<times> world" where
  "time_time w = (clock w (clock_count w), w\<lparr>clock_count := Suc (clock_count w)\<rparr>)"

definition time_strftime :: "world \<Rightarrow> string \<times> world" where
  "time_strftime w = (let (t, w') = time_time w in (localtime_fmt w t, w'))"

text \<open>
  A list comprehension whose element expression has effects: the elements are built in
  the order of the iterable, each in the world the previous one left.
\<close>

fun comprehension :: "('i \<Rightarrow> world \<Rightarrow> 'a \<times> world) \<Rightarrow> 'i list \<Rightarrow> world \<Rightarrow> 'a list \<times> world" where
  "comprehension f [] w = ([], w)"
| "comprehension f (i # is) w =
     (let (x, w1) = f i w;
          (xs, w2) = comprehension f is w1
      in (x # xs, w2))"

text \<open>\<^verbatim>\<open>range(a, b)\<close>.\<close>

definition py_range :: "int \<Rightarrow> int \<Rightarrow> int list" where
  "py_range a b = [a..b - 1]"

subsection \<open>Results of a handler\<close>

datatype http_error =
    HTTPException (status_code: nat) (detail: string)
  | RequestValidationError

type_synonym 'a result = "(http_error + 'a) \<times> world"

subsection \<open>Status endpoints\<close>

definition root :: "world \<Rightarrow> pyval result" where
  "root w =
     (Inr (PyDict [(''service'', PyStr ''API Management Service''),
                   (''status'', PyStr ''running''),
                   (''version'', PyStr ''1.0.0'')]), w)"

text \<open>The body of the \<^verbatim>\<open>try\<close> block of \<^verbatim>\<open>health_check\<close>: connect, then close.\<close>

definition health_check_try :: "world \<Rightarrow> exn + unit" where
  "health_check_try w =
     (case db_server w of
        Inl e \<Rightarrow> Inl e
      | Inr conn \<Rightarrow> (case conn_close conn of Some e \<Rightarrow> Inl e | None \<Rightarrow> Inr ()))"

definition health_check :: "world \<Rightarrow> HealthResponse result" where
  "health_check w =
     (let db_status = (case health_check_try w of Inl e \<Rightarrow> ''DOWN'' | Inr _ \<Rightarrow> ''UP'');
          (now, w') = time_time w
      in (Inr \<lparr>HealthResponse.status = ''UP'',
               HealthResponse.version = ''1.0.0'',
               uptime = now - start_time w,
               HealthResponse.service = ''api-management-service'',
               HealthResponse.database = db_status\<rparr>, w'))"

text \<open>
  The body of the \<^verbatim>\<open>try\<close> block of \<^verbatim>\<open>service_status\<close>: connect, open a cursor, execute
  \<^verbatim>\<open>SELECT 1\<close>, close the cursor, close the connection. The first call that raises ends it.
\<close>

definition service_status_try :: "world \<Rightarrow> exn + unit" where
  "service_status_try w =
     (case db_server w of
        Inl e \<Rightarrow> Inl e
      | Inr conn \<Rightarrow>
          (case conn_cursor conn of Some e \<Rightarrow> Inl e | None \<Rightarrow>
          (case cursor_execute conn of Some e \<Rightarrow> Inl e | None \<Rightarrow>
          (case cursor_close conn of Some e \<Rightarrow> Inl e | None \<Rightarrow>
          (case conn_close conn of Some e \<Rightarrow> Inl e | None \<Rightarrow> Inr ())))))"

definition service_status :: "world \<Rightarrow> ServiceStatusResponse result" where
  "service_status w =
     (let (db_status, status, message) =
            (case service_status_try w of
               Inr _ \<Rightarrow> (''UP'', ''SUCCESS'',
                         ''API Management Service is operational with database connectivity'')
             | Inl e \<Rightarrow> (''DOWN'', ''FAILURE'',
                         ''API Management Service is degraded - database connectivity issue: ''
                           @ str_exn e));
          (now, w') = time_strftime w
      in (Inr \<lparr>ServiceStatusResponse.service = ''api-management-service'',
               timestamp = now,
               ServiceStatusResponse.database = db_status,
               ServiceStatusResponse.status = status,
               ServiceStatusResponse.message = message\<rparr>, w'))"

subsection \<open>API descriptors\<close>

definition register_api :: "ApiRegistrationRequest \<Rightarrow> world \<Rightarrow> ApiResponse result" where
  "register_api request w =
     (let (u, w1) = uuid4 w;
          api_id = str_uuid u;
          (current_time, w2) = time_strftime w1
      in (Inr \<lparr>api_id = api_id,
               ApiResponse.name = ApiRegistrationRequest.name request,
               ApiResponse.description = ApiRegistrationRequest.description request,
               ApiResponse.base_url = ApiRegistrationRequest.base_url request,
               ApiResponse.version = ApiRegistrationRequest.version request,
               ApiResponse.owner_id = ApiRegistrationRequest.owner_id request,
               ApiResponse.documentation_url = ApiRegistrationRequest.documentation_url request,
               ApiResponse.tags = ApiRegistrationRequest.tags request,
               created_at = current_time,
               updated_at = current_time\<rparr>, w2))"

definition get_api :: "string \<Rightarrow> world \<Rightarrow> ApiResponse result" where
  "get_api api_id' w =
     (if api_id' = [] then (Inl (HTTPException 404 ''API not found''), w)
      else
        (let (c, w1) = time_strftime w;
             (m, w2) = time_strftime w1
         in (Inr \<lparr>api_id = api_id',
                  ApiResponse.name = ''Sample API'',
                  ApiResponse.description = ''This is a sample API'',
                  ApiResponse.base_url = ''https://api.example.com'',
                  ApiResponse.version = ''1.0.0'',
                  ApiResponse.owner_id = ''user-123'',
                  ApiResponse.documentation_url = Some ''https://docs.example.com'',
                  ApiResponse.tags = [''sample'', ''example''],
                  created_at = c,
                  updated_at = m\<rparr>, w2)))"

text \<open>The element expression of the comprehension in \<^verbatim>\<open>list_apis\<close>.\<close>

definition list_apis_item :: "int \<Rightarrow> world \<Rightarrow> ApiResponse \<times> world" where
  "list_apis_item i w =
     (let (u, w1) = uuid4 w;
          (c, w2) = time_strftime w1;
          (m, w3) = time_strftime w2
      in (\<lparr>api_id = str_uuid u,
            ApiResponse.name = ''Sample API '' @ str_int i,
            ApiResponse.description = ''This is a sample API '' @ str_int i,
            ApiResponse.base_url = ''https://api'' @ str_int i @ ''.example.com'',
            ApiResponse.version = ''1.0.0'',
            ApiResponse.owner_id = ''user-123'',
            ApiResponse.documentation_url = Some (''https://docs'' @ str_int i @ ''.example.com''),
            ApiResponse.tags = [''sample'', ''example''],
            created_at = c,
            updated_at = m\<rparr>, w3))"

definition list_apis :: "world \<Rightarrow> pyval result" where
  "list_apis w =
     (let (apis, w') = comprehension list_apis_item (py_range 1 4) w
      in (Inr (PyDict [(''data'', PyList (map PyModel apis)),
                       (''total'', PyInt (int (length apis)))]), w'))"

definition update_api :: "string \<Rightarrow> ApiRegistrationRequest \<Rightarrow> world \<Rightarrow> ApiResponse result" where
  "update_api api_id' request w =
     (if api_id' = [] then (Inl (HTTPException 404 ''API not found''), w)
      else
        (let (c, w1) = time_strftime w;
             (m, w2) = time_strftime w1
         in (Inr \<lparr>api_id = api_id',
                  ApiResponse.name = ApiRegistrationRequest.name request,
                  ApiResponse.description = ApiRegistrationRequest.description request,
                  ApiResponse.base_url = ApiRegistrationRequest.base_url request,
                  ApiResponse.version = ApiRegistrationRequest.version request,
                  ApiResponse.owner_id = ApiRegistrationRequest.owner_id request,
                  ApiResponse.documentation_url = ApiRegistrationRequest.documentation_url request,
                  ApiResponse.tags = ApiRegistrationRequest.tags request,
                  created_at = c,
                  updated_at = m\<rparr>, w2)))"

definition delete_api :: "string \<Rightarrow> world \<Rightarrow> pyval result" where
  "delete_api api_id' w =
     (if api_id' = [] then (Inl (HTTPException 404 ''API not found''), w)
      else (Inr (PyDict [(''message'', PyStr (''API '' @ api_id' @ '' deleted successfully''))]), w))"

subsection \<open>Health-check records\<close>

text \<open>The element expression of the comprehension in \<^verbatim>\<open>get_api_health_checks\<close>.\<close>

definition health_check_item :: "string \<Rightarrow> int \<Rightarrow> world \<Rightarrow> pyval \<times> world" where
  "health_check_item api_id' i w =
     (let (u, w1) = uuid4 w;
          (now, w2) = time_time w1
      in (PyDict
            [(''check_id'', PyStr (str_uuid u)),
             (''api_id'', PyStr api_id'),
             (''status'', PyStr (if i mod 3 \<noteq> 0 then ''healthy'' else ''degraded'')),
             (''response_time'', PyFloat (0.5 + (of_int i * 0.1))),
             (''timestamp'', PyInt (int_of_float now - (i * 3600))),
             (''details'', PyDict
                [(''status_code'', PyInt (if i mod 3 \<noteq> 0 then 200 else 500)),
                 (''response_size'', PyInt 1024),
                 (''endpoint'', PyStr ''/api/v1/resource'')])], w2))"

definition get_api_health_checks :: "string \<Rightarrow> world \<Rightarrow> pyval result" where
  "get_api_health_checks api_id' w =
     (let (health_checks, w') = comprehension (health_check_item api_id') (py_range 0 5) w
      in (Inr (PyDict [(''data'', PyList health_checks),
                       (''total'', PyInt (int (length health_checks)))]), w'))"

subsection \<open>Marketing forms\<close>

definition submit_contact_form :: "ContactSubmission \<Rightarrow> world \<Rightarrow> pyval result" where
  "submit_contact_form submission w =
     (let (u, w') = uuid4 w
      in (Inr (PyDict [(''message'', PyStr ''Contact form submitted successfully''),
                       (''submission_id'', PyStr (str_uuid u))]), w'))"

definition subscribe_newsletter :: "NewsletterSubscription \<Rightarrow> world \<Rightarrow> pyval result" where
  "subscribe_newsletter subscription w =
     (let (u, w') = uuid4 w
      in (Inr (PyDict [(''message'', PyStr ''Subscribed to newsletter successfully''),
                       (''subscription_id'', PyStr (str_uuid u))]), w'))"

definition join_trial_waitlist :: "TrialWaitlistEntry \<Rightarrow> world \<Rightarrow> pyval result" where
  "join_trial_waitlist entry w =
     (let (u, w') = uuid4 w
      in (Inr (PyDict [(''message'', PyStr ''Added to trial waitlist successfully''),
                       (''waitlist_id'', PyStr (str_uuid u))]), w'))"

subsection \<open>Request bodies\<close>

text \<open>
  The handlers above receive a model that the web framework has built from the JSON body
  of the request. The validators of the field types belong to the validation library, not
  to this service. What is fixed about them here: a JSON string is accepted as \<^verbatim>\<open>str\<close>
  unchanged; \<^verbatim>\<open>EmailStr\<close> accepts only a JSON string, and only one with an @-sign in it.
  The rest is a parameter: what the \<^verbatim>\<open>str\<close> validator does with a value that is not a
  string (\<open>str_of_other\<close>), and what else \<^verbatim>\<open>EmailStr\<close> requires of a string with an @-sign
  and how it normalises it (\<open>email_rest\<close>). A validator gives \<open>None\<close> when it rejects a value
  and \<open>Some s\<close> when it accepts it as the string \<open>s\<close>.
\<close>

record pydantic =
  str_of_other :: "pyval \<Rightarrow> string option"
  email_rest :: "string \<Rightarrow> string option"

definition validate_str :: "pydantic \<Rightarrow> pyval \<Rightarrow> string option" where
  "validate_str p v = (case v of PyStr s \<Rightarrow> Some s | _ \<Rightarrow> str_of_other p v)"

definition validate_EmailStr :: "pydantic \<Rightarrow> pyval \<Rightarrow> string option" where
  "validate_EmailStr p v =
     (case v of
        PyStr s \<Rightarrow> (if CHR ''@'' \<in> set s then email_rest p s else None)
      | _ \<Rightarrow> None)"

text \<open>\<^verbatim>\<open>List[str]\<close>: a JSON array whose items are all valid.\<close>

definition validate_str_list :: "pydantic \<Rightarrow> pyval \<Rightarrow> string list option" where
  "validate_str_list p v =
     (case v of PyList xs \<Rightarrow> those (map (validate_str p) xs) | _ \<Rightarrow> None)"

type_synonym body = "string \<rightharpoonup> pyval"

text \<open>A field declared \<^verbatim>\<open>f: T\<close>: it must be present and valid.\<close>

definition required :: "(pyval \<Rightarrow> 'a option) \<Rightarrow> body \<Rightarrow> string \<Rightarrow> 'a option" where
  "required v b k = (case b k of None \<Rightarrow> None | Some x \<Rightarrow> v x)"

text \<open>A field declared \<^verbatim>\<open>f: Optional[T] = None\<close>: absent or null, or else valid.\<close>

definition optional :: "(pyval \<Rightarrow> 'a option) \<Rightarrow> body \<Rightarrow> string \<Rightarrow> 'a option option" where
  "optional v b k =
     (case b k of
        None \<Rightarrow> Some None
      | Some PyNone \<Rightarrow> Some None
      | Some x \<Rightarrow> map_option Some (v x))"

text \<open>A field declared \<^verbatim>\<open>f: T = d\<close>: the default when absent, or else valid.\<close>

definition defaulted :: "'a \<Rightarrow> (pyval \<Rightarrow> 'a option) \<Rightarrow> body \<Rightarrow> string \<Rightarrow> 'a option" where
  "defaulted d v b k = (case b k of None \<Rightarrow> Some d | Some x \<Rightarrow> v x)"

definition parse_ApiRegistrationRequest :: "pydantic \<Rightarrow> body \<Rightarrow> ApiRegistrationRequest option" where
  "parse_ApiRegistrationRequest p b =
     do {
       n \<leftarrow> required (validate_str p) b ''name'';
       d \<leftarrow> required (validate_str p) b ''description'';
       u \<leftarrow> required (validate_str p) b ''base_url'';
       v \<leftarrow> required (validate_str p) b ''version'';
       ow \<leftarrow> required (validate_str p) b ''owner_id'';
       c \<leftarrow> optional (validate_str p) b ''documentation_url'';
       t \<leftarrow> defaulted [] (validate_str_list p) b ''tags'';
       Some \<lparr>ApiRegistrationRequest.name = n,
             ApiRegistrationRequest.description = d,
             ApiRegistrationRequest.base_url = u,
             ApiRegistrationRequest.version = v,
             ApiRegistrationRequest.owner_id = ow,
             ApiRegistrationRequest.documentation_url = c,
             ApiRegistrationRequest.tags = t\<rparr>
     }"

definition parse_ContactSubmission :: "pydantic \<Rightarrow> body \<Rightarrow> ContactSubmission option" where
  "parse_ContactSubmission p b =
     do {
       e \<leftarrow> required (validate_EmailStr p) b ''email'';
       n \<leftarrow> required (validate_str p) b ''name'';
       s \<leftarrow> required (validate_str p) b ''subject'';
       m \<leftarrow> required (validate_str p) b ''message'';
       c \<leftarrow> optional (validate_str p) b ''company'';
       Some \<lparr>ContactSubmission.email = e, ContactSubmission.name = n, subject = s,
             ContactSubmission.message = m, ContactSubmission.company = c\<rparr>
     }"

definition parse_NewsletterSubscription :: "pydantic \<Rightarrow> body \<Rightarrow> NewsletterSubscription option" where
  "parse_NewsletterSubscription p b =
     do {
       e \<leftarrow> required (validate_EmailStr p) b ''email'';
       Some \<lparr>NewsletterSubscription.email = e\<rparr>
     }"

definition parse_TrialWaitlistEntry :: "pydantic \<Rightarrow> body \<Rightarrow> TrialWaitlistEntry option" where
  "parse_TrialWaitlistEntry p b =
     do {
       e \<leftarrow> required (validate_EmailStr p) b ''email'';
       n \<leftarrow> required (validate_str p) b ''full_name'';
       c \<leftarrow> optional (validate_str p) b ''company'';
       s \<leftarrow> optional (validate_str p) b ''selected_plan'';
       Some \<lparr>TrialWaitlistEntry.email = e, full_name = n,
             TrialWaitlistEntry.company = c, selected_plan = s\<rparr>
     }"

text \<open>
  A route declared \<^verbatim>\<open>@app.post(path, status_code=code)\<close> on a handler with one body
  parameter: a body that does not validate is answered with a validation error and the
  handler is not called; otherwise the handler's result is sent with the declared code.
\<close>

definition post_route ::
  "nat \<Rightarrow> (pydantic \<Rightarrow> body \<Rightarrow> 'm option) \<Rightarrow> ('m \<Rightarrow> world \<Rightarrow> pyval result) \<Rightarrow>
   pydantic \<Rightarrow> body \<Rightarrow> world \<Rightarrow> (nat \<times> pyval) result" where
  "post_route code parse handler p b w =
     (case parse p b of
        None \<Rightarrow> (Inl RequestValidationError, w)
      | Some m \<Rightarrow>
          (case handler m w of
             (Inl e, w') \<Rightarrow> (Inl e, w')
           | (Inr r, w') \<Rightarrow> (Inr (code, r), w')))"

definition post_contact_submissions :: "pydantic \<Rightarrow> body \<Rightarrow> world \<Rightarrow> (nat \<times> pyval) result" where
  "post_contact_submissions = post_route 201 parse_ContactSubmission submit_contact_form"

definition post_newsletter_subscriptions :: "pydantic \<Rightarrow> body \<Rightarrow> world \<Rightarrow> (nat \<times> pyval) result" where
  "post_newsletter_subscriptions = post_route 201 parse_NewsletterSubscription subscribe_newsletter"

definition post_trial_waitlist :: "pydantic \<Rightarrow> body \<Rightarrow> world \<Rightarrow> (nat \<times> pyval) result" where
  "post_trial_waitlist = post_route 201 parse_TrialWaitlistEntry join_trial_waitlist"


subsection \<open>Routing\<close>

text \<open>
  The decorators of main.py register each handler with the framework's router under a
  path and a method. The router is the framework's, not this service's; it is written out
  here as the framework has it, because it decides which requests reach which handler and
  with which \<^verbatim>\<open>api_id\<close>.

  A path is compiled to a regular expression that is matched against the whole path of
  the request, as the server hands it over (percent-decoded, without the query string):
  the path itself for a path without parameter, and for a path with \<^verbatim>\<open>{api_id}\<close> the
  text before it, then \<^verbatim>\<open>[^/]+\<close> (one or more characters other than a slash), then the text
  after it. The expression ends in \<^verbatim>\<open>$\<close>, which in Python also matches before a final
  newline.
\<close>

definition at_end :: "string \<Rightarrow> string \<Rightarrow> bool" where
  "at_end lit s = (s = lit \<or> s = lit @ [CHR 0x0A])"

definition path_param :: "string \<Rightarrow> string \<Rightarrow> string \<Rightarrow> string option" where
  "path_param pre suf path =
     (if take (length pre) path = pre then
        (let rest = drop (length pre) path;
             seg = takeWhile (\<lambda>c. c \<noteq> CHR ''/'') rest;
             tail = dropWhile (\<lambda>c. c \<noteq> CHR ''/'') rest
         in if seg \<noteq> [] \<and> at_end suf tail then Some seg else None)
      else None)"

text \<open>The handler a route leads to, with the \<^verbatim>\<open>api_id\<close> taken from the path where it has one.\<close>

datatype endpoint =
    Openapi
  | Swagger_ui_html
  | Swagger_ui_redirect
  | Redoc_html
  | Root
  | Health_check
  | Service_status
  | Register_api
  | Get_api string
  | List_apis
  | Update_api string
  | Delete_api string
  | Get_api_health_checks string
  | Submit_contact_form
  | Subscribe_newsletter
  | Join_trial_waitlist

text \<open>
  A route: its path (for a path with \<^verbatim>\<open>{api_id}\<close>, the text before and the text after the
  parameter), its methods and its handler.
\<close>

datatype route =
    Route string "string list" endpoint
  | Route_api_id string string "string list" "string \<Rightarrow> endpoint"

datatype match = Match_NONE | Match_PARTIAL | Match_FULL endpoint

fun matches :: "route \<Rightarrow> string \<Rightarrow> string \<Rightarrow> match" where
  "matches (Route path methods e) method p =
     (if at_end path p
      then (if method \<in> set methods then Match_FULL e else Match_PARTIAL)
      else Match_NONE)"
| "matches (Route_api_id pre suf methods f) method p =
     (case path_param pre suf p of
        None \<Rightarrow> Match_NONE
      | Some a \<Rightarrow> (if method \<in> set methods then Match_FULL (f a) else Match_PARTIAL))"

text \<open>
  The routes of the application, in the order they are registered: the four pages the
  framework adds by itself when the application object is created, then the handlers of
  main.py from top to bottom. The framework's own pages answer HEAD as well as GET.
\<close>

definition routes :: "route list" where
  "routes =
     [Route ''/openapi.json'' [''GET'', ''HEAD''] Openapi,
      Route ''/docs'' [''GET'', ''HEAD''] Swagger_ui_html,
      Route ''/docs/oauth2-redirect'' [''GET'', ''HEAD''] Swagger_ui_redirect,
      Route ''/redoc'' [''GET'', ''HEAD''] Redoc_html,
      Route ''/'' [''GET''] Root,
      Route ''/health'' [''GET''] Health_check,
      Route ''/service-status'' [''GET''] Service_status,
      Route ''/api/v1/apis'' [''POST''] Register_api,
      Route_api_id ''/api/v1/apis/'' [] [''GET''] Get_api,
      Route ''/api/v1/apis'' [''GET''] List_apis,
      Route_api_id ''/api/v1/apis/'' [] [''PUT''] Update_api,
      Route_api_id ''/api/v1/apis/'' [] [''DELETE''] Delete_api,
      Route_api_id ''/api/v1/apis/'' ''/health-checks'' [''GET''] Get_api_health_checks,
      Route ''/api/v1/contact-submissions'' [''POST''] Submit_contact_form,
      Route ''/api/v1/newsletter-subscriptions'' [''POST''] Subscribe_newsletter,
      Route ''/api/v1/trial-waitlist'' [''POST''] Join_trial_waitlist]"

text \<open>
  The router: the first route that matches path and method handles the request. Failing
  that, a route that matches the path alone makes it "method not allowed". Failing that,
  when the path with its trailing slashes removed (or, if it has none, with one added)
  matches the path of some route, the request is redirected there. Otherwise nothing is
  found.
\<close>

fun first_full :: "route list \<Rightarrow> string \<Rightarrow> string \<Rightarrow> endpoint option" where
  "first_full [] method p = None"
| "first_full (r # rs) method p =
     (case matches r method p of Match_FULL e \<Rightarrow> Some e | _ \<Rightarrow> first_full rs method p)"

definition redirect_path :: "string \<Rightarrow> string" where
  "redirect_path p =
     (if p \<noteq> [] \<and> last p = CHR ''/''
      then rev (dropWhile (\<lambda>c. c = CHR ''/'') (rev p))
      else p @ ''/'')"

datatype routed = Handle endpoint | Method_not_allowed | Redirect_to string | Not_found

definition router :: "route list \<Rightarrow> string \<Rightarrow> string \<Rightarrow> routed" where
  "router rs method p =
     (case first_full rs method p of
        Some e \<Rightarrow> Handle e
      | None \<Rightarrow>
          (if list_ex (\<lambda>r. matches r method p = Match_PARTIAL) rs then Method_not_allowed
           else if p \<noteq> ''/'' \<and> list_ex (\<lambda>r. matches r method (redirect_path p) \<noteq> Match_NONE) rs
           then Redirect_to (redirect_path p)
           else Not_found))"

subsection \<open>Answering a request\<close>

text \<open>
  What the service sends back: the status code and content of a handler's result, a
  temporary redirect (307) to another path, or an error.
\<close>

datatype content =
    Descriptor ApiResponse
  | Health_body HealthResponse
  | Status_body ServiceStatusResponse
  | Json_body pyval
  | Framework_page

datatype answer =
    Answer nat content
  | Redirect string
  | Refused http_error

fun respond :: "nat \<Rightarrow> ('a \<Rightarrow> content) \<Rightarrow> 'a result \<Rightarrow> answer \<times> world" where
  "respond code wrap (Inl e, w) = (Refused e, w)"
| "respond code wrap (Inr x, w) = (Answer code (wrap x), w)"

fun respond_post :: "(nat \<times> pyval) result \<Rightarrow> answer \<times> world" where
  "respond_post (Inl e, w) = (Refused e, w)"
| "respond_post (Inr (code, r), w) = (Answer code (Json_body r), w)"

text \<open>
  Calling the handler of a route. A handler with a \<^verbatim>\<open>request\<close> parameter is called on the
  validated body, or not at all when the body does not validate.
\<close>

fun call :: "endpoint \<Rightarrow> pydantic \<Rightarrow> body \<Rightarrow> world \<Rightarrow> answer \<times> world" where
  "call Openapi p b w = (Answer 200 Framework_page, w)"
| "call Swagger_ui_html p b w = (Answer 200 Framework_page, w)"
| "call Swagger_ui_redirect p b w = (Answer 200 Framework_page, w)"
| "call Redoc_html p b w = (Answer 200 Framework_page, w)"
| "call Root p b w = respond 200 Json_body (root w)"
| "call Health_check p b w = respond 200 Health_body (health_check w)"
| "call Service_status p b w = respond 200 Status_body (service_status w)"
| "call Register_api p b w =
     (case parse_ApiRegistrationRequest p b of
        None \<Rightarrow> (Refused RequestValidationError, w)
      | Some request \<Rightarrow> respond 200 Descriptor (register_api request w))"
| "call (Get_api a) p b w = respond 200 Descriptor (get_api a w)"
| "call List_apis p b w = respond 200 Json_body (list_apis w)"
| "call (Update_api a) p b w =
     (case parse_ApiRegistrationRequest p b of
        None \<Rightarrow> (Refused RequestValidationError, w)
      | Some request \<Rightarrow> respond 200 Descriptor (update_api a request w))"
| "call (Delete_api a) p b w = respond 200 Json_body (delete_api a w)"
| "call (Get_api_health_checks a) p b w = respond 200 Json_body (get_api_health_checks a w)"
| "call Submit_contact_form p b w = respond_post (post_contact_submissions p b w)"
| "call Subscribe_newsletter p b w = respond_post (post_newsletter_subscriptions p b w)"
| "call Join_trial_waitlist p b w = respond_post (post_trial_waitlist p b w)"

text \<open>
  The service on a request with the given method, path and JSON body. The errors of the
  router are the framework's: 405 \<^verbatim>\<open>Method Not Allowed\<close> and 404 \<^verbatim>\<open>Not Found\<close>.
\<close>

definition serve :: "pydantic \<Rightarrow> string \<Rightarrow> string \<Rightarrow> body \<Rightarrow> world \<Rightarrow> answer \<times> world" where
  "serve p method path b w =
     (case router routes method path of
        Handle e \<Rightarrow> call e p b w
      | Method_not_allowed \<Rightarrow> (Refused (HTTPException 405 ''Method Not Allowed''), w)
      | Redirect_to q \<Rightarrow> (Redirect q, w)
      | Not_found \<Rightarrow> (Refused (HTTPException 404 ''Not Found''), w))"

subsection \<open>Reading a listing\<close>

text \<open>
  The items under \<^verbatim>\<open>"data"\<close> of a returned listing, the integer timestamps of the
  items, and the differences between neighbouring timestamps.
\<close>

definition data_items :: "http_error + pyval \<Rightarrow> pyval list" where
  "data_items r =
     (case r of
        Inl e \<Rightarrow> []
      | Inr d \<Rightarrow> (case getitem d ''data'' of Some (PyList xs) \<Rightarrow> xs | _ \<Rightarrow> []))"

definition timestamps :: "http_error + pyval \<Rightarrow> int list" where
  "timestamps r =
     concat (map (\<lambda>h. case getitem h ''timestamp'' of Some (PyInt t) \<Rightarrow> [t] | _ \<Rightarrow> [])
                 (data_items r))"

fun gaps :: "int list \<Rightarrow> int list" where
  "gaps (x # y # ys) = (x - y) # gaps (y # ys)"
| "gaps _ = []"

text \<open>
  Concrete inputs for the examples. In \<open>tick_world\<close> the wall clock advances by one
  microsecond per reading and passes a full second between the first reading and the
  second, and the database refuses connections; in \<open>steady_world\<close> the first readings
  fall within one second. \<open>sample_pydantic\<close> fills in the parameters of the validation
  library for the examples: nothing but a string is a \<^verbatim>\<open>str\<close>, and the one address the
  examples use, \<^verbatim>\<open>contact@mail.com\<close>, is an \<^verbatim>\<open>EmailStr\<close> (it is the address the library's
  own documentation shows as accepted, unchanged). \<open>good_body\<close> has every field the three
  forms require; \<open>bad_body\<close> differs from it in the email.
\<close>

definition tick_world :: world where
  "tick_world =
     \<lparr>uuid_source = (\<lambda>n. of_nat n),
      uuid_count = 0,
      clock = (\<lambda>n. 1699999999 + (999999 + of_nat n) / 1000000),
      clock_count = 0,
      localtime_fmt = (\<lambda>t. ''2023-11-14 22:13:20''),
      db_server = Inl (Exception ''connection refused''),
      start_time = 1699990000\<rparr>"

definition steady_world :: world where
  "steady_world = tick_world\<lparr>clock := (\<lambda>n. 1700000000 + of_nat n / 1000000)\<rparr>"

definition select_fails :: connection where
  "select_fails =
     \<lparr>conn_cursor = None, cursor_execute = Some (Exception ''server closed the connection''),
      cursor_close = None, conn_close = None\<rparr>"

definition healthy_connection :: connection where
  "healthy_connection =
     \<lparr>conn_cursor = None, cursor_execute = None, cursor_close = None, conn_close = None\<rparr>"

definition sample_request :: ApiRegistrationRequest where
  "sample_request =
     \<lparr>ApiRegistrationRequest.name = ''Billing'',
      ApiRegistrationRequest.description = ''Invoices'',
      ApiRegistrationRequest.base_url = ''https://billing.example.com'',
      ApiRegistrationRequest.version = ''2.1.0'',
      ApiRegistrationRequest.owner_id = ''user-7'',
      ApiRegistrationRequest.documentation_url = None,
      ApiRegistrationRequest.tags = [''finance'']\<rparr>"

definition sample_pydantic :: pydantic where
  "sample_pydantic =
     \<lparr>str_of_other = (\<lambda>v. None),
      email_rest = (\<lambda>s. if s = ''contact@mail.com'' then Some s else None)\<rparr>"

definition good_body :: body where
  "good_body =
     [''email'' \<mapsto> PyStr ''contact@mail.com'', ''name'' \<mapsto> PyStr ''Ada'',
      ''subject'' \<mapsto> PyStr ''Pricing'', ''message'' \<mapsto> PyStr ''Hello'',
      ''full_name'' \<mapsto> PyStr ''Ada Lovelace'', ''company'' \<mapsto> PyNone]"


section \<open>Properties of the handlers\<close>

subsection \<open>Auxiliary facts\<close>

lemma length_hex_pad: "length (hex_pad k n) = k"
  by (induction k arbitrary: n) simp_all

lemma length_str_uuid: "length (str_uuid u) = 36"
  by (simp add: str_uuid_def Let_def length_hex_pad)

lemma str_uuid_nonempty: "str_uuid u \<noteq> []"
  using length_str_uuid [of u] by auto

lemma py_range_0_5: "py_range 0 5 = [0, 1, 2, 3, 4]"
  by (simp add: py_range_def upto_rec1)

lemma py_range_1_4: "py_range 1 4 = [1, 2, 3]"
  by (simp add: py_range_def upto_rec1)

lemma length_comprehension: "length (fst (comprehension f xs w)) = length xs"
  by (induction xs arbitrary: w) (simp_all add: split_beta)

lemmas effects = uuid4_def time_time_def time_strftime_def

subsection \<open>Facts about routing\<close>

lemma path_param_segment:
  "path_param pre suf p = Some a \<Longrightarrow> a \<noteq> [] \<and> CHR ''/'' \<notin> set a"
  by (auto simp add: path_param_def Let_def split: if_splits dest: set_takeWhileD)

lemma first_full_route:
  "first_full rs method p = Some e \<Longrightarrow> \<exists>r \<in> set rs. matches r method p = Match_FULL e"
  by (induction rs) (auto split: match.splits)

lemma matches_full_api_id:
  assumes "r \<in> set routes" and "matches r method p = Match_FULL e"
    and "e = Get_api a \<or> e = Update_api a \<or> e = Delete_api a \<or> e = Get_api_health_checks a"
  shows "a \<noteq> [] \<and> CHR ''/'' \<notin> set a"
  using assms
  by (auto simp add: routes_def split: if_splits option.splits dest: path_param_segment)

lemma routed_api_id:
  assumes "router routes method p = Handle e"
    and "e = Get_api a \<or> e = Update_api a \<or> e = Delete_api a \<or> e = Get_api_health_checks a"
  shows "a \<noteq> [] \<and> CHR ''/'' \<notin> set a"
proof -
  from assms(1) have "first_full routes method p = Some e"
    by (simp add: router_def split: option.splits if_splits)
  then obtain r where "r \<in> set routes" "matches r method p = Match_FULL e"
    using first_full_route by blast
  then show ?thesis
    using assms(2) matches_full_api_id by blast
qed

lemma router_empty_identifier:
  "router routes method ''/api/v1/apis/'' = Redirect_to ''/api/v1/apis''"
  by (simp add: router_def routes_def at_end_def path_param_def redirect_path_def)

lemma router_empty_health: "router routes method ''/api/v1/apis//health-checks'' = Not_found"
  by (simp add: router_def routes_def at_end_def path_param_def redirect_path_def)

lemma segment_then_slash:
  assumes "CHR ''/'' \<notin> set a"
  shows "takeWhile (\<lambda>c. c \<noteq> CHR ''/'') (a @ CHR ''/'' # t) = a"
    and "dropWhile (\<lambda>c. c \<noteq> CHR ''/'') (a @ CHR ''/'' # t) = CHR ''/'' # t"
  using assms by (induction a) auto

lemma router_health_checks:
  assumes "a \<noteq> []" and "CHR ''/'' \<notin> set a"
  shows "router routes ''GET'' (''/api/v1/apis/'' @ a @ ''/health-checks'') =
           Handle (Get_api_health_checks a)"
  using assms
  by (simp add: router_def routes_def at_end_def path_param_def segment_then_slash)


lemma health_checks_records:
  "\<exists>hs w'. get_api_health_checks a w =
              (Inr (PyDict [(''data'', PyList hs), (''total'', PyInt 5)]), w')
     \<and> length hs = 5
     \<and> map (\<lambda>h. getitem h ''api_id'') hs = replicate 5 (Some (PyStr a))"
  by (simp add: get_api_health_checks_def py_range_0_5 health_check_item_def effects
        eval_nat_numeral)

lemma post_route_not_api_not_found:
  assumes "\<And>m. \<exists>r w'. handler m w = (Inr r, w')"
  shows "fst (respond_post (post_route code parse handler p b w)) \<noteq>
           Refused (HTTPException 404 ''API not found'')"
proof (cases "parse p b")
  case None
  then show ?thesis by (simp add: post_route_def)
next
  case (Some m)
  from assms obtain r w' where "handler m w = (Inr r, w')" by blast
  with Some show ?thesis by (simp add: post_route_def)
qed

lemma call_not_api_not_found:
  assumes "\<And>a. e = Get_api a \<or> e = Update_api a \<or> e = Delete_api a \<Longrightarrow> a \<noteq> []"
  shows "fst (call e p b w) \<noteq> Refused (HTTPException 404 ''API not found'')"
proof (cases e)
  case Register_api
  then show ?thesis
    by (simp add: register_api_def effects split_beta split: option.splits)
next
  case (Get_api a)
  with assms have "a \<noteq> []" by simp
  with Get_api show ?thesis by (simp add: get_api_def effects split_beta)
next
  case (Update_api a)
  with assms have "a \<noteq> []" by simp
  with Update_api show ?thesis
    by (simp add: update_api_def effects split_beta split: option.splits)
next
  case (Delete_api a)
  with assms have "a \<noteq> []" by simp
  with Delete_api show ?thesis by (simp add: delete_api_def)
next
  case (Get_api_health_checks a)
  obtain hs w' where "get_api_health_checks a w =
      (Inr (PyDict [(''data'', PyList hs), (''total'', PyInt 5)]), w')"
    using health_checks_records [of a w] by blast
  with Get_api_health_checks show ?thesis by simp
next
  case Submit_contact_form
  then show ?thesis
    using post_route_not_api_not_found [of submit_contact_form w 201 parse_ContactSubmission p b]
    by (simp add: post_contact_submissions_def submit_contact_form_def uuid4_def)
next
  case Subscribe_newsletter
  then show ?thesis
    using post_route_not_api_not_found
      [of subscribe_newsletter w 201 parse_NewsletterSubscription p b]
    by (simp add: post_newsletter_subscriptions_def subscribe_newsletter_def uuid4_def)
next
  case Join_trial_waitlist
  then show ?thesis
    using post_route_not_api_not_found [of join_trial_waitlist w 201 parse_TrialWaitlistEntry p b]
    by (simp add: post_trial_waitlist_def join_trial_waitlist_def uuid4_def)
qed (simp_all add: root_def health_check_def service_status_def list_apis_def effects split_beta)

lemma serve_not_api_not_found:
  "fst (serve p method path b w) \<noteq> Refused (HTTPException 404 ''API not found'')"
proof (cases "router routes method path")
  case (Handle e)
  have "fst (call e p b w) \<noteq> Refused (HTTPException 404 ''API not found'')"
  proof (rule call_not_api_not_found)
    fix a
    assume "e = Get_api a \<or> e = Update_api a \<or> e = Delete_api a"
    then show "a \<noteq> []"
      using routed_api_id [of "method" "path" e a] Handle by blast
  qed
  with Handle show ?thesis by (simp add: serve_def)
qed (simp_all add: serve_def)

subsection \<open>The model at concrete inputs\<close>

lemma str_uuid_example: "str_uuid 255 = ''00000000-0000-0000-0000-0000000000ff''"
  by code_simp

lemma str_int_digit: "str_int 1 = ''1''" "str_int 2 = ''2''" "str_int 3 = ''3''"
  by (simp_all add: str_int_def str_nat.simps digits_def)

lemma list_apis_names:
  "map (\<lambda>d. case d of PyModel a \<Rightarrow> ApiResponse.name a | _ \<Rightarrow> [])
       (data_items (fst (list_apis w))) =
     [''Sample API 1'', ''Sample API 2'', ''Sample API 3'']"
  by (simp add: list_apis_def py_range_1_4 list_apis_item_def effects data_items_def
        str_int_digit)

lemma delete_api_example:
  "delete_api ''api-42'' tick_world =
     (Inr (PyDict [(''message'', PyStr ''API api-42 deleted successfully'')]), tick_world)"
  by (simp add: delete_api_def)

subsection \<open>Registering, reading, updating and deleting a descriptor\<close>

text \<open>
  C1. For every registration request that has passed validation, \<^verbatim>\<open>register_api\<close> returns
  a descriptor whose name, description, base_url, version, owner_id, documentation_url and
  tags are those of the request. Its api_id is the string of the UUID drawn from the random
  source during this call (the source is one draw further afterwards), and that string is
  not empty. created_at and updated_at are the same string.
\<close>

theorem register_api_echoes_request:
  "\<exists>r w'. register_api request w = (Inr r, w')
     \<and> ApiResponse.name r = ApiRegistrationRequest.name request
     \<and> ApiResponse.description r = ApiRegistrationRequest.description request
     \<and> ApiResponse.base_url r = ApiRegistrationRequest.base_url request
     \<and> ApiResponse.version r = ApiRegistrationRequest.version request
     \<and> ApiResponse.owner_id r = ApiRegistrationRequest.owner_id request
     \<and> ApiResponse.documentation_url r = ApiRegistrationRequest.documentation_url request
     \<and> ApiResponse.tags r = ApiRegistrationRequest.tags request
     \<and> api_id r = str_uuid (uuid_source w (uuid_count w))
     \<and> uuid_count w' = Suc (uuid_count w)
     \<and> api_id r \<noteq> []
     \<and> created_at r = updated_at r"
  by (simp add: register_api_def effects str_uuid_nonempty)

text \<open>
  C3. For every non-empty identifier, \<^verbatim>\<open>get_api\<close> and \<^verbatim>\<open>update_api\<close> return a descriptor,
  and its api_id is exactly the identifier they were called with.
\<close>

theorem get_put_echo_identifier:
  assumes "api_id' \<noteq> []"
  shows "(\<exists>r w'. get_api api_id' w = (Inr r, w') \<and> api_id r = api_id')
       \<and> (\<exists>r w'. update_api api_id' request w = (Inr r, w') \<and> api_id r = api_id')"
  using assms by (simp add: get_api_def update_api_def effects)

theorem get_put_echo_identifier_witness:
  "''api-42'' \<noteq> []
   \<and> (\<exists>r w'. get_api ''api-42'' tick_world = (Inr r, w') \<and> api_id r = ''api-42'')
   \<and> (\<exists>r w'. update_api ''api-42'' sample_request tick_world = (Inr r, w')
          \<and> api_id r = ''api-42'')"
  using get_put_echo_identifier [of "''api-42''" tick_world sample_request] by simp

text \<open>
  C4, as stated, fails for the endpoints. A request with an empty identifier has the path
  \<^verbatim>\<open>/api/v1/apis/\<close>. No route matches it, since \<^verbatim>\<open>{api_id}\<close> needs at least one character, and
  the router redirects it to \<^verbatim>\<open>/api/v1/apis\<close>, where GET is the listing and PUT and DELETE
  are not allowed. It is not answered 404 \<^verbatim>\<open>API not found\<close>.
\<close>

theorem empty_identifier_redirected:
  "serve sample_pydantic ''GET'' ''/api/v1/apis/'' good_body tick_world =
     (Redirect ''/api/v1/apis'', tick_world)
   \<and> serve sample_pydantic ''PUT'' ''/api/v1/apis/'' good_body tick_world =
     (Redirect ''/api/v1/apis'', tick_world)
   \<and> serve sample_pydantic ''DELETE'' ''/api/v1/apis/'' good_body tick_world =
     (Redirect ''/api/v1/apis'', tick_world)
   \<and> fst (serve sample_pydantic ''GET'' ''/api/v1/apis/'' good_body tick_world) \<noteq>
     Refused (HTTPException 404 ''API not found'')
   \<and> fst (serve sample_pydantic ''PUT'' ''/api/v1/apis/'' good_body tick_world) \<noteq>
     Refused (HTTPException 404 ''API not found'')
   \<and> fst (serve sample_pydantic ''DELETE'' ''/api/v1/apis/'' good_body tick_world) \<noteq>
     Refused (HTTPException 404 ''API not found'')
   \<and> router routes ''GET'' ''/api/v1/apis'' = Handle List_apis
   \<and> router routes ''PUT'' ''/api/v1/apis'' = Method_not_allowed
   \<and> router routes ''DELETE'' ''/api/v1/apis'' = Method_not_allowed"
  by (simp add: serve_def router_empty_identifier)
    (simp add: router_def routes_def at_end_def path_param_def)

text \<open>
  C4, amended. Called with the empty identifier, \<^verbatim>\<open>get_api\<close>, \<^verbatim>\<open>update_api\<close> and \<^verbatim>\<open>delete_api\<close>
  each raise the HTTP exception with status 404 and the message \<^verbatim>\<open>API not found\<close>, and return
  nothing. No request reaches them with it: an identifier the router passes to one of them
  is not empty, a request for \<^verbatim>\<open>/api/v1/apis/\<close> is redirected to \<^verbatim>\<open>/api/v1/apis\<close> whatever
  its method, and the service answers no request with 404 \<^verbatim>\<open>API not found\<close>.
\<close>

theorem empty_identifier_never_routed:
  "get_api [] w = (Inl (HTTPException 404 ''API not found''), w)
   \<and> update_api [] request w = (Inl (HTTPException 404 ''API not found''), w)
   \<and> delete_api [] w = (Inl (HTTPException 404 ''API not found''), w)
   \<and> (router routes method path = Handle (Get_api a)
        \<or> router routes method path = Handle (Update_api a)
        \<or> router routes method path = Handle (Delete_api a) \<longrightarrow> a \<noteq> [])
   \<and> serve p method ''/api/v1/apis/'' b w = (Redirect ''/api/v1/apis'', w)
   \<and> fst (serve p method path b w) \<noteq> Refused (HTTPException 404 ''API not found'')"
proof (intro conjI impI)
  show "get_api [] w = (Inl (HTTPException 404 ''API not found''), w)"
    by (simp add: get_api_def)
  show "update_api [] request w = (Inl (HTTPException 404 ''API not found''), w)"
    by (simp add: update_api_def)
  show "delete_api [] w = (Inl (HTTPException 404 ''API not found''), w)"
    by (simp add: delete_api_def)
  show "serve p method ''/api/v1/apis/'' b w = (Redirect ''/api/v1/apis'', w)"
    by (simp add: serve_def router_empty_identifier)
  show "fst (serve p method path b w) \<noteq> Refused (HTTPException 404 ''API not found'')"
    by (rule serve_not_api_not_found)
next
  assume "router routes method path = Handle (Get_api a)
        \<or> router routes method path = Handle (Update_api a)
        \<or> router routes method path = Handle (Delete_api a)"
  then show "a \<noteq> []"
    using routed_api_id [of "method" "path" _ a] by blast
qed

theorem empty_identifier_never_routed_witness:
  "router routes ''GET'' ''/api/v1/apis/api-42'' = Handle (Get_api ''api-42'')
   \<and> ''api-42'' \<noteq> []
   \<and> serve sample_pydantic ''GET'' ''/api/v1/apis/'' good_body tick_world =
       (Redirect ''/api/v1/apis'', tick_world)"
proof -
  have r: "router routes ''GET'' ''/api/v1/apis/api-42'' = Handle (Get_api ''api-42'')"
    by (simp add: router_def routes_def at_end_def path_param_def)
  show ?thesis
    using r empty_identifier_never_routed
      [of tick_world sample_request "''GET''" "''/api/v1/apis/api-42''" "''api-42''"
          sample_pydantic good_body]
    by simp
qed

text \<open>
  C8. \<^verbatim>\<open>list_apis\<close> always returns: a dict whose \<^verbatim>\<open>data\<close> is a list of exactly 3 descriptors
  and whose \<^verbatim>\<open>total\<close> is the length of that list, 3.
\<close>

theorem list_apis_three:
  "\<exists>apis w'. list_apis w =
       (Inr (PyDict [(''data'', PyList (map PyModel apis)),
                     (''total'', PyInt (int (length apis)))]), w')
     \<and> length apis = 3
     \<and> PyInt (int (length apis)) = PyInt 3"
proof -
  obtain apis w' where c: "comprehension list_apis_item (py_range 1 4) w = (apis, w')"
    by (cases "comprehension list_apis_item (py_range 1 4) w")
  have "length apis = length (py_range 1 4)"
    using length_comprehension [of list_apis_item "py_range 1 4" w] c by simp
  then have n: "length apis = 3"
    by (simp add: py_range_1_4)
  have "list_apis w =
          (Inr (PyDict [(''data'', PyList (map PyModel apis)),
                        (''total'', PyInt (int (length apis)))]), w')"
    using c by (simp add: list_apis_def)
  with n show ?thesis by auto
qed

subsection \<open>Health-check records\<close>

text \<open>
  C2. \<^verbatim>\<open>get_api_health_checks\<close> always returns a dict whose \<^verbatim>\<open>data\<close> is a list of exactly
  5 records and whose \<^verbatim>\<open>total\<close> is 5. The records at indices 0 and 3 have status
  \<^verbatim>\<open>degraded\<close> and status_code 500 in their details; those at indices 1, 2 and 4 have
  status \<^verbatim>\<open>healthy\<close> and status_code 200.
\<close>

theorem health_checks_five_cyclic:
  "\<exists>hs w'. get_api_health_checks api_id' w =
              (Inr (PyDict [(''data'', PyList hs), (''total'', PyInt 5)]), w')
     \<and> length hs = 5
     \<and> map (\<lambda>h. getitem h ''status'') hs =
         [Some (PyStr ''degraded''), Some (PyStr ''healthy''), Some (PyStr ''healthy''),
          Some (PyStr ''degraded''), Some (PyStr ''healthy'')]
     \<and> map (\<lambda>h. getitem h ''details'' \<bind> (\<lambda>d. getitem d ''status_code'')) hs =
         [Some (PyInt 500), Some (PyInt 200), Some (PyInt 200), Some (PyInt 500),
          Some (PyInt 200)]"
  by (simp add: get_api_health_checks_def py_range_0_5 health_check_item_def effects)

text \<open>
  C9, as stated, fails for the empty identifier: the path \<^verbatim>\<open>/api/v1/apis//health-checks\<close>
  matches no route, and the router answers 404 \<^verbatim>\<open>Not Found\<close>.
\<close>

theorem health_checks_empty_identifier_not_found:
  "serve sample_pydantic ''GET'' ''/api/v1/apis//health-checks'' good_body tick_world =
     (Refused (HTTPException 404 ''Not Found''), tick_world)"
  by (simp add: serve_def router_empty_health)

text \<open>
  C9, amended. For every identifier the route can carry, that is every non-empty one with
  no slash in it, \<^verbatim>\<open>GET /api/v1/apis/{id}/health-checks\<close> succeeds with 5 records, and the
  api_id of each of them is that identifier; the router passes no other identifier to the
  handler. The handler itself has no not-found branch: called with any string, the empty
  one included, it returns 5 records with that api_id. A request with an empty identifier
  in the path does not reach it and is answered 404 \<^verbatim>\<open>Not Found\<close> by the router.
\<close>

theorem health_checks_routed_identifier:
  "(api_id' \<noteq> [] \<and> CHR ''/'' \<notin> set api_id' \<longrightarrow>
      (\<exists>hs w'. serve p ''GET'' (''/api/v1/apis/'' @ api_id' @ ''/health-checks'') b w =
                 (Answer 200 (Json_body (PyDict [(''data'', PyList hs), (''total'', PyInt 5)])),
                  w')
         \<and> length hs = 5
         \<and> map (\<lambda>h. getitem h ''api_id'') hs = replicate 5 (Some (PyStr api_id'))))
   \<and> (router routes method path = Handle (Get_api_health_checks a) \<longrightarrow>
        a \<noteq> [] \<and> CHR ''/'' \<notin> set a)
   \<and> (\<exists>hs w'. get_api_health_checks api_id' w =
                 (Inr (PyDict [(''data'', PyList hs), (''total'', PyInt 5)]), w')
         \<and> length hs = 5
         \<and> map (\<lambda>h. getitem h ''api_id'') hs = replicate 5 (Some (PyStr api_id')))
   \<and> serve p method ''/api/v1/apis//health-checks'' b w =
       (Refused (HTTPException 404 ''Not Found''), w)"
proof (intro conjI impI)
  assume a: "api_id' \<noteq> [] \<and> CHR ''/'' \<notin> set api_id'"
  obtain hs w' where h: "get_api_health_checks api_id' w =
      (Inr (PyDict [(''data'', PyList hs), (''total'', PyInt 5)]), w')"
    "length hs = 5" "map (\<lambda>h. getitem h ''api_id'') hs = replicate 5 (Some (PyStr api_id'))"
    using health_checks_records [of api_id' w] by blast
  have "serve p ''GET'' (''/api/v1/apis/'' @ api_id' @ ''/health-checks'') b w =
          (Answer 200 (Json_body (PyDict [(''data'', PyList hs), (''total'', PyInt 5)])), w')"
    using a h(1) router_health_checks [of api_id'] by (simp add: serve_def)
  with h(2,3) show "\<exists>hs w'. serve p ''GET'' (''/api/v1/apis/'' @ api_id' @ ''/health-checks'') b w =
                 (Answer 200 (Json_body (PyDict [(''data'', PyList hs), (''total'', PyInt 5)])),
                  w')
         \<and> length hs = 5
         \<and> map (\<lambda>h. getitem h ''api_id'') hs = replicate 5 (Some (PyStr api_id'))"
    by blast
next
  assume "router routes method path = Handle (Get_api_health_checks a)"
  then show "a \<noteq> []" and "CHR ''/'' \<notin> set a"
    using routed_api_id [of "method" "path" "Get_api_health_checks a" a] by simp_all
next
  show "\<exists>hs w'. get_api_health_checks api_id' w =
                 (Inr (PyDict [(''data'', PyList hs), (''total'', PyInt 5)]), w')
         \<and> length hs = 5
         \<and> map (\<lambda>h. getitem h ''api_id'') hs = replicate 5 (Some (PyStr api_id'))"
    by (rule health_checks_records)
  show "serve p method ''/api/v1/apis//health-checks'' b w =
       (Refused (HTTPException 404 ''Not Found''), w)"
    by (simp add: serve_def router_empty_health)
qed

theorem health_checks_routed_identifier_witness:
  "''api-42'' \<noteq> [] \<and> CHR ''/'' \<notin> set ''api-42''
   \<and> (\<exists>hs w'. serve sample_pydantic ''GET'' ''/api/v1/apis/api-42/health-checks'' good_body
                   tick_world =
                 (Answer 200 (Json_body (PyDict [(''data'', PyList hs), (''total'', PyInt 5)])),
                  w')
         \<and> length hs = 5
         \<and> map (\<lambda>h. getitem h ''api_id'') hs = replicate 5 (Some (PyStr ''api-42'')))
   \<and> router routes ''GET'' ''/api/v1/apis/api-42/health-checks'' =
       Handle (Get_api_health_checks ''api-42'')"
proof -
  have r: "router routes ''GET'' ''/api/v1/apis/api-42/health-checks'' =
       Handle (Get_api_health_checks ''api-42'')"
    by (simp add: router_def routes_def at_end_def path_param_def)
  show ?thesis
    using r health_checks_routed_identifier
      [of "''api-42''" sample_pydantic good_body tick_world "''GET''"
          "''/api/v1/apis/api-42/health-checks''" "''api-42''"]
    by simp
qed

subsection \<open>Status endpoints\<close>

text \<open>
  C6. \<^verbatim>\<open>health_check\<close> returns a response whatever the database does, and raises nothing.
  The status of the response is \<^verbatim>\<open>UP\<close>. Its database field is \<^verbatim>\<open>DOWN\<close> exactly when
  connecting, or closing the connection, raised, and \<^verbatim>\<open>UP\<close> otherwise; every other field
  is the same in both cases.
\<close>

theorem health_check_never_fails:
  "\<exists>r w'. health_check w = (Inr r, w')
     \<and> HealthResponse.status r = ''UP''
     \<and> (HealthResponse.database r = ''UP'' \<or> HealthResponse.database r = ''DOWN'')
     \<and> (HealthResponse.database r = ''DOWN'') =
         ((\<exists>e. db_server w = Inl e) \<or> (\<exists>c e. db_server w = Inr c \<and> conn_close c = Some e))
     \<and> r\<lparr>HealthResponse.database := ''UP''\<rparr> =
         \<lparr>HealthResponse.status = ''UP'', HealthResponse.version = ''1.0.0'',
          uptime = clock w (clock_count w) - start_time w,
          HealthResponse.service = ''api-management-service'',
          HealthResponse.database = ''UP''\<rparr>"
  by (auto simp add: health_check_def health_check_try_def effects
        split: sum.splits option.splits)

text \<open>
  C7. \<^verbatim>\<open>service_status\<close> returns a response in every case. When connecting raises, or
  when the connection and its cursor are obtained and executing \<^verbatim>\<open>SELECT 1\<close> raises, the
  response has status \<^verbatim>\<open>FAILURE\<close>, database \<^verbatim>\<open>DOWN\<close> and the message
  \<^verbatim>\<open>API Management Service is degraded - database connectivity issue: \<close> followed by the
  text of the exception. When every call of the probe returns, the response has status
  \<^verbatim>\<open>SUCCESS\<close>, database \<^verbatim>\<open>UP\<close> and the operational message.
\<close>

theorem service_status_reports_probe:
  "\<exists>r w'. service_status w = (Inr r, w')
     \<and> (db_server w = Inl e \<longrightarrow>
          ServiceStatusResponse.status r = ''FAILURE''
        \<and> ServiceStatusResponse.database r = ''DOWN''
        \<and> ServiceStatusResponse.message r =
            ''API Management Service is degraded - database connectivity issue: '' @ str_exn e)
     \<and> (db_server w = Inr c \<and> conn_cursor c = None \<and> cursor_execute c = Some e \<longrightarrow>
          ServiceStatusResponse.status r = ''FAILURE''
        \<and> ServiceStatusResponse.database r = ''DOWN''
        \<and> ServiceStatusResponse.message r =
            ''API Management Service is degraded - database connectivity issue: '' @ str_exn e)
     \<and> (db_server w = Inr c \<and> conn_cursor c = None \<and> cursor_execute c = None
          \<and> cursor_close c = None \<and> conn_close c = None \<longrightarrow>
          ServiceStatusResponse.status r = ''SUCCESS''
        \<and> ServiceStatusResponse.database r = ''UP''
        \<and> ServiceStatusResponse.message r =
            ''API Management Service is operational with database connectivity'')"
  by (auto simp add: service_status_def service_status_try_def effects
        split: sum.splits option.splits)

theorem service_status_reports_probe_witness:
  "db_server tick_world = Inl (Exception ''connection refused'')
   \<and> (\<exists>r w'. service_status tick_world = (Inr r, w')
        \<and> ServiceStatusResponse.status r = ''FAILURE''
        \<and> ServiceStatusResponse.database r = ''DOWN''
        \<and> ServiceStatusResponse.message r =
            ''API Management Service is degraded - database connectivity issue: connection refused'')
   \<and> db_server (tick_world\<lparr>db_server := Inr select_fails\<rparr>) = Inr select_fails
   \<and> conn_cursor select_fails = None
   \<and> cursor_execute select_fails = Some (Exception ''server closed the connection'')
   \<and> (\<exists>r w'. service_status (tick_world\<lparr>db_server := Inr select_fails\<rparr>) = (Inr r, w')
        \<and> ServiceStatusResponse.status r = ''FAILURE''
        \<and> ServiceStatusResponse.database r = ''DOWN''
        \<and> ServiceStatusResponse.message r =
            ''API Management Service is degraded - database connectivity issue: server closed the connection'')
   \<and> db_server (tick_world\<lparr>db_server := Inr healthy_connection\<rparr>) = Inr healthy_connection
   \<and> conn_cursor healthy_connection = None \<and> cursor_execute healthy_connection = None
   \<and> cursor_close healthy_connection = None \<and> conn_close healthy_connection = None
   \<and> (\<exists>r w'. service_status (tick_world\<lparr>db_server := Inr healthy_connection\<rparr>) = (Inr r, w')
        \<and> ServiceStatusResponse.status r = ''SUCCESS''
        \<and> ServiceStatusResponse.database r = ''UP''
        \<and> ServiceStatusResponse.message r =
            ''API Management Service is operational with database connectivity'')"
proof -
  have a: "db_server tick_world = Inl (Exception ''connection refused'')"
    by (simp add: tick_world_def)
  have b: "conn_cursor select_fails = None"
    "cursor_execute select_fails = Some (Exception ''server closed the connection'')"
    by (simp_all add: select_fails_def)
  have c: "conn_cursor healthy_connection = None" "cursor_execute healthy_connection = None"
    "cursor_close healthy_connection = None" "conn_close healthy_connection = None"
    by (simp_all add: healthy_connection_def)
  show ?thesis
    using service_status_reports_probe
        [of tick_world "Exception ''connection refused''" select_fails]
      service_status_reports_probe
        [of "tick_world\<lparr>db_server := Inr select_fails\<rparr>"
            "Exception ''server closed the connection''" select_fails]
      service_status_reports_probe
        [of "tick_world\<lparr>db_server := Inr healthy_connection\<rparr>"
            "Exception ''unused''" healthy_connection]
      a b c
    by simp
qed

subsection \<open>Marketing forms\<close>







subsection \<open>Timestamps of the health-check records\<close>

lemma health_check_timestamps_list:
  "timestamps (fst (get_api_health_checks api_id' w)) =
     [int_of_float (clock w (clock_count w)),
      int_of_float (clock w (clock_count w + 1)) - 3600,
      int_of_float (clock w (clock_count w + 2)) - 7200,
      int_of_float (clock w (clock_count w + 3)) - 10800,
      int_of_float (clock w (clock_count w + 4)) - 14400]"
  by (simp add: timestamps_def data_items_def get_api_health_checks_def py_range_0_5
        health_check_item_def effects eval_nat_numeral)

text \<open>
  C10, as stated, fails: the clock is read anew for each record, so there is no single base
  time. When a second passes between the first reading and the second, the first two
  timestamps are 3599 apart, not 3600.
\<close>

theorem health_check_timestamps_tick:
  "timestamps (fst (get_api_health_checks ''api-42'' tick_world)) =
     [1699999999, 1699996400, 1699992800, 1699989200, 1699985600]
   \<and> gaps (timestamps (fst (get_api_health_checks ''api-42'' tick_world))) =
       [3599, 3600, 3600, 3600]
   \<and> gaps (timestamps (fst (get_api_health_checks ''api-42'' tick_world))) \<noteq>
       [3600, 3600, 3600, 3600]"
  by (simp add: health_check_timestamps_list tick_world_def int_of_float_def)

text \<open>
  C10, amended. The timestamp of the record at index \<open>i\<close> is the integer part of the clock
  reading taken while that record is built, minus \<open>i * 3600\<close>. When the five readings have
  the same integer part \<open>T\<close>, the timestamps are \<open>T - i * 3600\<close>: newest first, each exactly
  3600 below the one before.
\<close>

theorem health_check_timestamps:
  "timestamps (fst (get_api_health_checks api_id' w)) =
     [int_of_float (clock w (clock_count w)),
      int_of_float (clock w (clock_count w + 1)) - 3600,
      int_of_float (clock w (clock_count w + 2)) - 7200,
      int_of_float (clock w (clock_count w + 3)) - 10800,
      int_of_float (clock w (clock_count w + 4)) - 14400]
   \<and> (map (\<lambda>i. int_of_float (clock w (clock_count w + i))) [0, 1, 2, 3, 4] = replicate 5 T \<longrightarrow>
        timestamps (fst (get_api_health_checks api_id' w)) =
          [T, T - 3600, T - 7200, T - 10800, T - 14400]
      \<and> gaps (timestamps (fst (get_api_health_checks api_id' w))) = [3600, 3600, 3600, 3600])"
proof (intro conjI impI)
  show l: "timestamps (fst (get_api_health_checks api_id' w)) =
     [int_of_float (clock w (clock_count w)),
      int_of_float (clock w (clock_count w + 1)) - 3600,
      int_of_float (clock w (clock_count w + 2)) - 7200,
      int_of_float (clock w (clock_count w + 3)) - 10800,
      int_of_float (clock w (clock_count w + 4)) - 14400]"
    by (rule health_check_timestamps_list)
  assume "map (\<lambda>i. int_of_float (clock w (clock_count w + i))) [0, 1, 2, 3, 4] = replicate 5 T"
  then have "int_of_float (clock w (clock_count w)) = T"
    "int_of_float (clock w (clock_count w + 1)) = T"
    "int_of_float (clock w (clock_count w + 2)) = T"
    "int_of_float (clock w (clock_count w + 3)) = T"
    "int_of_float (clock w (clock_count w + 4)) = T"
    by (simp_all add: eval_nat_numeral)
  then show t: "timestamps (fst (get_api_health_checks api_id' w)) =
          [T, T - 3600, T - 7200, T - 10800, T - 14400]"
    using l by simp
  show "gaps (timestamps (fst (get_api_health_checks api_id' w))) = [3600, 3600, 3600, 3600]"
    by (simp add: t)
qed

theorem health_check_timestamps_witness:
  "map (\<lambda>i. int_of_float (clock steady_world (clock_count steady_world + i))) [0, 1, 2, 3, 4] =
     replicate 5 1700000000
   \<and> timestamps (fst (get_api_health_checks ''api-42'' steady_world)) =
       [1700000000, 1699996400, 1699992800, 1699989200, 1699985600]
   \<and> gaps (timestamps (fst (get_api_health_checks ''api-42'' steady_world))) =
       [3600, 3600, 3600, 3600]"
proof -
  have h: "map (\<lambda>i. int_of_float (clock steady_world (clock_count steady_world + i)))
             [0, 1, 2, 3, 4] = replicate 5 1700000000"
    by (simp add: steady_world_def tick_world_def int_of_float_def eval_nat_numeral)
  note t = health_check_timestamps [of "''api-42''" steady_world 1700000000,
      THEN conjunct2, THEN mp, OF h]
  show ?thesis
  proof (intro conjI)
    show "map (\<lambda>i. int_of_float (clock steady_world (clock_count steady_world + i)))
            [0, 1, 2, 3, 4] = replicate 5 1700000000"
      by (rule h)
    show "timestamps (fst (get_api_health_checks ''api-42'' steady_world)) =
       [1700000000, 1699996400, 1699992800, 1699989200, 1699985600]"
      using t by simp
    show "gaps (timestamps (fst (get_api_health_checks ''api-42'' steady_world))) =
       [3600, 3600, 3600, 3600]"
      using t by simp
  qed
qed

end
